theory Spec2Isabelle
  imports Complex_Main "HOL-Library.Sublist" "HOL-Library.Product_Lexorder"
begin

section \<open>JavaScript values used by the charger finder\<close>

text \<open>
  Numbers are IEEE doubles in the program; here they are real numbers, and the one
  special value the pipeline can produce from absent fields, NaN, is the value
  \<open>None\<close> of \<open>real option\<close>. A coordinate field holds a number, \<open>null\<close> or
  \<open>undefined\<close>; arithmetic coerces it with ToNumber (\<open>null\<close> is 0, \<open>undefined\<close>
  is NaN). Rounding error of the double arithmetic is not modelled.
\<close>

datatype jsval = Num real | Null | Undefined

fun toNumber :: "jsval \<Rightarrow> real option" where
  "toNumber (Num x) = Some x"
| "toNumber Null = Some 0"
| "toNumber Undefined = None"


text \<open>\<open>a <= b\<close> where \<open>a\<close> may be NaN: every comparison with NaN is false.\<close>

fun js_le :: "real option \<Rightarrow> real \<Rightarrow> bool" where
  "js_le None t = False"
| "js_le (Some d) t = (d \<le> t)"

subsection \<open>Strings\<close>

text \<open>
  \<open>String.prototype.toLowerCase\<close> on the ASCII letters (an upper-case letter has a
  code from 65 to 90, and its lower-case letter is 32 above it: bit 5 set), and
  \<open>String.prototype.includes\<close>.
\<close>

definition toLowerChar :: "char \<Rightarrow> char" where
  "toLowerChar c =
     (if 65 \<le> (of_char c :: nat) \<and> (of_char c :: nat) \<le> 90
      then (case c of Char b0 b1 b2 b3 b4 b5 b6 b7 \<Rightarrow> Char b0 b1 b2 b3 b4 True b6 b7)
      else c)"

definition toLowerCase :: "string \<Rightarrow> string" where
  "toLowerCase s = map toLowerChar s"

fun str_includes :: "string \<Rightarrow> string \<Rightarrow> bool" where
  "str_includes [] sub = (sub = [])"
| "str_includes (c # cs) sub = (prefix sub (c # cs) \<or> str_includes cs sub)"

section \<open>Raw upstream charger records\<close>

record status_type =
  StatusType_Title :: "string option"
  IsOperational :: "bool option"

record connection =
  PowerKW :: "real option"
  ConnectionType_Title :: "string option"
  Connection_StatusType :: "status_type option"

record usage_type =
  UsageType_Title :: "string option"
  IsMembershipRequired :: "bool option"
  IsAccessKeyRequired :: "bool option"
  IsPayAtLocation :: "bool option"

record address_info =
  Latitude :: jsval
  Longitude :: jsval

record raw_charger =
  ID :: nat
  AddressInfo :: "address_info option"
  Connections :: "connection list option"
  UsageCost :: "string option"
  UsageType :: "usage_type option"
  StatusType :: "status_type option"

section \<open>Canonical chargers\<close>

record coord =
  lat :: jsval
  lng :: jsval

record connector =
  connector_type :: string
  connector_power :: real
  connector_status :: "string option"
  statusIsOperational :: "bool option"

text \<open>
  The fields of the parsed charger that the correlation and the filters read.
  \<open>placeId\<close> and \<open>distanceFromPlace\<close> are absent (\<open>None\<close>) until the correlation
  step assigns them; the distance assigned is a number or NaN.
\<close>

record charger =
  charger_id :: nat
  location :: coord
  powerTier :: string
  maxPower :: real
  minPower :: "real option"
  hasMultiplePowerLevels :: bool
  isFree :: bool
  cost :: string
  isOperational :: "bool option"
  category :: string
  connectors :: "connector list"
  hasLiveStatus :: bool
  placeId :: "string option"
  distanceFromPlace :: "real option option"

subsection \<open>parseChargerData\<close>

text \<open>\<open>x || d\<close> for an optional string (\<open>null\<close>, \<open>undefined\<close> and \<open>''\<close> are falsy).\<close>

definition str_or :: "string option \<Rightarrow> string \<Rightarrow> string" where
  "str_or x d = (case x of None \<Rightarrow> d | Some s \<Rightarrow> if s = [] then d else s)"

text \<open>\<open>charger.Connections || []\<close>\<close>

definition connections_of :: "raw_charger \<Rightarrow> connection list" where
  "connections_of ch = (case Connections ch of None \<Rightarrow> [] | Some cs \<Rightarrow> cs)"

text \<open>\<open>connections.map((c) => c.PowerKW || 0).filter(p => p > 0)\<close>\<close>

definition powerValues :: "raw_charger \<Rightarrow> real list" where
  "powerValues ch =
     filter (\<lambda>p. p > 0)
       (map (\<lambda>c. case PowerKW c of None \<Rightarrow> 0 | Some p \<Rightarrow> p) (connections_of ch))"

definition derivePowerTier :: "real \<Rightarrow> string" where
  "derivePowerTier maxP =
     (if maxP \<le> 3.7 then ''level1''
      else if maxP \<le> 22 then ''level2''
      else if maxP > 22 then ''dc_fast''
      else ''unknown'')"

text \<open>A flag is truthy when it is present and true.\<close>

definition truthy :: "bool option \<Rightarrow> bool" where
  "truthy b = (b = Some True)"

definition deriveAccessCategory :: "raw_charger \<Rightarrow> string" where
  "deriveAccessCategory ch =
     (let title = toLowerCase (str_or (case UsageType ch of None \<Rightarrow> None
                                        | Some u \<Rightarrow> UsageType_Title u) []);
          membership = (case UsageType ch of None \<Rightarrow> None | Some u \<Rightarrow> IsMembershipRequired u);
          accessKey = (case UsageType ch of None \<Rightarrow> None | Some u \<Rightarrow> IsAccessKeyRequired u)
      in if truthy membership then ''permit''
         else if truthy accessKey then ''restricted''
         else if str_includes title ''parking'' then ''parking''
         else if str_includes title ''public'' then ''public''
         else if str_includes title ''private'' then ''private''
         else if str_includes title ''restricted'' then ''restricted''
         else ''unknown'')"

text \<open>\<open>charger.UsageType?.IsPayAtLocation ?? false\<close>\<close>

definition isPayAtLocation :: "raw_charger \<Rightarrow> bool" where
  "isPayAtLocation ch =
     (case UsageType ch of None \<Rightarrow> False
      | Some u \<Rightarrow> (case IsPayAtLocation u of None \<Rightarrow> False | Some b \<Rightarrow> b))"

definition connectorData :: "connection \<Rightarrow> connector" where
  "connectorData c =
     \<lparr> connector_type = str_or (ConnectionType_Title c) ''Unknown'',
       connector_power = (case PowerKW c of None \<Rightarrow> 0 | Some p \<Rightarrow> p),
       connector_status =
         (case Connection_StatusType c of None \<Rightarrow> None
          | Some st \<Rightarrow> (case StatusType_Title st of None \<Rightarrow> None
                        | Some t \<Rightarrow> if t = [] then None else Some t)),
       statusIsOperational =
         (case Connection_StatusType c of None \<Rightarrow> None | Some st \<Rightarrow> IsOperational st) \<rparr>"

definition parseChargerData :: "raw_charger \<Rightarrow> charger" where
  "parseChargerData ch =
     (let connections = connections_of ch;
          pvs = powerValues ch;
          maxP = (if length pvs > 0 then Max (set pvs) else 0);
          minP = (if length pvs > 0 then Min (set pvs) else 0);
          multi = (length pvs > 1 \<and> minP \<noteq> maxP);
          usageCost = str_or (UsageCost ch) [];
          pay = isPayAtLocation ch;
          free = (usageCost \<noteq> [] \<and> str_includes (toLowerCase usageCost) ''free'' \<and> \<not> pay);
          statusFlag = (case StatusType ch of None \<Rightarrow> None | Some st \<Rightarrow> IsOperational st);
          statusTitle = toLowerCase (str_or (case StatusType ch of None \<Rightarrow> None
                                               | Some st \<Rightarrow> StatusType_Title st) []);
          isNonOperationalStatus =
            (str_includes statusTitle ''unavailable'' \<or> str_includes statusTitle ''planned'' \<or>
             str_includes statusTitle ''removed'' \<or> str_includes statusTitle ''decommissioned'');
          connectionOperational =
            list_ex (\<lambda>c. case Connection_StatusType c of None \<Rightarrow> False
                          | Some st \<Rightarrow> IsOperational st = Some True) connections;
          operational =
            (if statusFlag = Some False \<or> isNonOperationalStatus then Some False
             else if statusFlag = Some True then Some True
             else if connectionOperational then Some True
             else None);
          cds = map connectorData connections
      in \<lparr> charger_id = ID ch,
           location = \<lparr> lat = (case AddressInfo ch of None \<Rightarrow> Undefined | Some a \<Rightarrow> Latitude a),
                        lng = (case AddressInfo ch of None \<Rightarrow> Undefined | Some a \<Rightarrow> Longitude a) \<rparr>,
           powerTier = derivePowerTier maxP,
           maxPower = maxP,
           minPower = (if multi then Some minP else None),
           hasMultiplePowerLevels = multi,
           isFree = free,
           cost = (if usageCost \<noteq> [] then usageCost
                   else if free then ''Free''
                   else if pay then ''Pay At Location'' else ''Paid''),
           isOperational = operational,
           category = deriveAccessCategory ch,
           connectors = cds,
           hasLiveStatus = list_ex (\<lambda>c. connector_status c \<noteq> None) cds,
           placeId = None,
           distanceFromPlace = None \<rparr>)"

section \<open>Geo math\<close>

text \<open>
  The trigonometric functions are those of the real numbers. \<open>Math.sqrt\<close> of a
  negative number is NaN; \<open>Math.atan2\<close> is written out by quadrant (signed zeros
  are not modelled). NaN is contagious: if a coordinate coerces to NaN, so does every
  intermediate value of \<open>calculateDistance\<close>.
\<close>

definition toRad :: "real \<Rightarrow> real" where
  "toRad degrees = (degrees * pi) / 180"

definition js_sqrt :: "real \<Rightarrow> real option" where
  "js_sqrt x = (if x < 0 then None else Some (sqrt x))"

definition atan2 :: "real \<Rightarrow> real \<Rightarrow> real" where
  "atan2 y x =
     (if x > 0 then arctan (y / x)
      else if x < 0 then (if y \<ge> 0 then arctan (y / x) + pi else arctan (y / x) - pi)
      else if y > 0 then pi / 2
      else if y < 0 then - (pi / 2)
      else 0)"

text \<open>The body of \<open>calculateDistance\<close> once the four coordinates are numbers.\<close>

definition haversine :: "real \<Rightarrow> real \<Rightarrow> real \<Rightarrow> real \<Rightarrow> real option" where
  "haversine lat1 lng1 lat2 lng2 =
     (let R = 6371;
          dLat = toRad (lat2 - lat1);
          dLon = toRad (lng2 - lng1);
          a = sin (dLat / 2) * sin (dLat / 2) +
              cos (toRad lat1) * cos (toRad lat2) * sin (dLon / 2) * sin (dLon / 2)
      in case js_sqrt a of
           None \<Rightarrow> None
         | Some sa \<Rightarrow> (case js_sqrt (1 - a) of
                         None \<Rightarrow> None
                       | Some sb \<Rightarrow> Some (R * (2 * atan2 sa sb))))"

definition calculateDistance :: "coord \<Rightarrow> coord \<Rightarrow> real option" where
  "calculateDistance coord1 coord2 =
     (case toNumber (lat coord1) of None \<Rightarrow> None | Some lat1 \<Rightarrow>
      case toNumber (lng coord1) of None \<Rightarrow> None | Some lng1 \<Rightarrow>
      case toNumber (lat coord2) of None \<Rightarrow> None | Some lat2 \<Rightarrow>
      case toNumber (lng coord2) of None \<Rightarrow> None | Some lng2 \<Rightarrow>
        haversine lat1 lng1 lat2 lng2)"

definition walkingTimeToDistanceKm :: "real \<Rightarrow> real" where
  "walkingTimeToDistanceKm minutes =
     (let walkingSpeedMph = 3.1;
          distanceMiles = (minutes / 60) * walkingSpeedMph
      in distanceMiles * 1.60934)"

subsection \<open>Printing integers\<close>

text \<open>An integer inside a template string is printed in decimal.\<close>

definition digit_char :: "nat \<Rightarrow> char" where
  "digit_char d = ''0123456789'' ! d"

fun show_nat :: "nat \<Rightarrow> string" where
  "show_nat n = (if n < 10 then [digit_char n] else show_nat (n div 10) @ [digit_char (n mod 10)])"

declare show_nat.simps [simp del]

definition show_int :: "int \<Rightarrow> string" where
  "show_int i = (if i < 0 then CHR ''-'' # show_nat (nat (- i)) else show_nat (nat i))"

subsection \<open>calculateWalkingTime\<close>

text \<open>
  The remainder \<open>x % y\<close> of JavaScript takes the sign of the dividend: the quotient is
  truncated towards zero. \<open>Math.round x\<close> is \<open>\<lfloor>x + 1/2\<rfloor>\<close>, which is \<^const>\<open>round\<close>.
  The function is written in two steps: the branch taken, as a label, and the template
  string of each branch.
\<close>

definition js_rem :: "real \<Rightarrow> real \<Rightarrow> real" where
  "js_rem x y = x - y * of_int (if x / y < 0 then \<lceil>x / y\<rceil> else \<lfloor>x / y\<rfloor>)"

datatype walk_label = LessThanOneMin | Minutes int | Hours int | HoursMinutes int int

fun render :: "walk_label \<Rightarrow> string" where
  "render LessThanOneMin = ''< 1 min''"
| "render (Minutes n) = show_int n @ '' min''"
| "render (Hours h) = show_int h @ '' hr'' @ (if h > 1 then ''s'' else [])"
| "render (HoursMinutes h r) = show_int h @ '' hr '' @ show_int r @ '' min''"

definition walkingLabel :: "real \<Rightarrow> walk_label" where
  "walkingLabel distanceKm =
     (let distanceMiles = distanceKm * 0.621371;
          walkingSpeedMph = 3.1;
          minutes = (distanceMiles / walkingSpeedMph) * 60
      in if minutes < 1 then LessThanOneMin
         else if minutes < 60 then Minutes (round minutes)
         else (let hours = \<lfloor>minutes / 60\<rfloor>;
                   remainingMinutes = round (js_rem minutes 60)
               in if remainingMinutes = 0 then Hours hours
                  else HoursMinutes hours remainingMinutes))"

definition calculateWalkingTime :: "real \<Rightarrow> string" where
  "calculateWalkingTime distanceKm = render (walkingLabel distanceKm)"

text \<open>The time, in minutes, that a label stands for.\<close>

fun label_minutes :: "walk_label \<Rightarrow> real set" where
  "label_minutes LessThanOneMin = {t. 0 \<le> t \<and> t < 1}"
| "label_minutes (Minutes n) = {of_int n}"
| "label_minutes (Hours h) = {60 * of_int h}"
| "label_minutes (HoursMinutes h r) = {60 * of_int h + of_int r}"

section \<open>Array.prototype.sort\<close>

text \<open>
  A comparator returns a number, which may be infinite or NaN. The sort is stable and
  places \<open>a\<close> after \<open>b\<close> when the comparator's value for \<open>(a, b)\<close> is positive; a NaN
  result counts as \<open>+0\<close>. Insertion from the right is the reference implementation.
\<close>

datatype jsnum = Fin real | PInf | NInf | NaN

fun js_minus :: "jsnum \<Rightarrow> jsnum \<Rightarrow> jsnum" where
  "js_minus (Fin a) (Fin b) = Fin (a - b)"
| "js_minus (Fin a) PInf = NInf"
| "js_minus (Fin a) NInf = PInf"
| "js_minus PInf (Fin b) = PInf"
| "js_minus PInf NInf = PInf"
| "js_minus PInf PInf = NaN"
| "js_minus NInf (Fin b) = NInf"
| "js_minus NInf PInf = NInf"
| "js_minus NInf NInf = NaN"
| "js_minus NaN b = NaN"
| "js_minus a NaN = NaN"

fun positive :: "jsnum \<Rightarrow> bool" where
  "positive (Fin v) = (v > 0)"
| "positive PInf = True"
| "positive NInf = False"
| "positive NaN = False"

fun js_insort :: "('a \<Rightarrow> 'a \<Rightarrow> jsnum) \<Rightarrow> 'a \<Rightarrow> 'a list \<Rightarrow> 'a list" where
  "js_insort cmp x [] = [x]"
| "js_insort cmp x (y # ys) =
     (if positive (cmp x y) then y # js_insort cmp x ys else x # y # ys)"

definition js_sort :: "('a \<Rightarrow> 'a \<Rightarrow> jsnum) \<Rightarrow> 'a list \<Rightarrow> 'a list" where
  "js_sort cmp xs = foldr (js_insort cmp) xs []"

section \<open>Places\<close>


record place =
  place_id :: string
  geometry_location :: coord
  chargerCount :: "nat option"
  featuredCharger :: "charger option"



subsection \<open>Driving distances and the order of places\<close>

record distance_result =
  distanceValue :: "real option"

text \<open>\<open>distances[p.place_id]?.distanceValue || Infinity\<close>: zero is falsy.\<close>

definition distOrInfinity :: "(string \<rightharpoonup> distance_result) \<Rightarrow> place \<Rightarrow> jsnum" where
  "distOrInfinity distances p =
     (case distances (place_id p) of
        None \<Rightarrow> PInf
      | Some r \<Rightarrow> (case distanceValue r of
                    None \<Rightarrow> PInf
                  | Some v \<Rightarrow> if v = 0 then PInf else Fin v))"

definition sortPlaces :: "(string \<rightharpoonup> distance_result) \<Rightarrow> place list \<Rightarrow> place list" where
  "sortPlaces distances ps =
     js_sort (\<lambda>a b. js_minus (distOrInfinity distances a) (distOrInfinity distances b)) ps"

section \<open>Filter criteria and the state of the map view\<close>

record filters =
  f_operational :: bool
  f_access :: string
  f_cost :: string
  f_speed :: string
  f_connectors :: "string list"
  f_walkingTime :: real
  f_searchRadius :: real

datatype load_error = NoLocationsFound | NoLocationsWithinRadius

record view_state =
  places :: "place list"
  chargers :: "charger list"
  filteredChargers :: "charger list"
  distances :: "string \<rightharpoonup> distance_result"
  previousPlacesSignature :: string
  error :: "load_error option"

text \<open>\<open>x || d\<close> for a number: zero is falsy.\<close>

definition num_or :: "real \<Rightarrow> real \<Rightarrow> real" where
  "num_or x d = (if x = 0 then d else x)"

section \<open>Correlation: loadDataFromLocation\<close>

text \<open>
  The chargers fetched for the place at \<open>index\<close>: parsed, kept when within the walking
  distance of that place, then stamped with the place's id and the distance.
\<close>

definition correlatePlace :: "real \<Rightarrow> place \<Rightarrow> raw_charger list \<Rightarrow> charger list" where
  "correlatePlace walkingDistanceKm pl locationChargers =
     (let placeLocation = \<lparr> lat = lat (geometry_location pl), lng = lng (geometry_location pl) \<rparr>;
          parsedChargers =
            filter (\<lambda>c. js_le (calculateDistance placeLocation (location c)) walkingDistanceKm)
              (map parseChargerData locationChargers)
      in map (\<lambda>c. c\<lparr> placeId := Some (place_id pl),
                      distanceFromPlace := Some (calculateDistance placeLocation (location c)) \<rparr>)
           parsedChargers)"

text \<open>
  \<open>chargerResults\<close> has one list for each place of \<open>placeResults\<close>, in the same order
  (it is the result of mapping the fetch over the place locations).
\<close>

definition allChargers :: "filters \<Rightarrow> place list \<Rightarrow> raw_charger list list \<Rightarrow> charger list" where
  "allChargers f placeResults chargerResults =
     (let walkingTimeMinutes = num_or (f_walkingTime f) 5;
          walkingDistanceKm = walkingTimeToDistanceKm walkingTimeMinutes
      in concat (map (\<lambda>(pl, locationChargers). correlatePlace walkingDistanceKm pl locationChargers)
                   (zip placeResults chargerResults)))"

definition withChargerCounts :: "charger list \<Rightarrow> place list \<Rightarrow> place list" where
  "withChargerCounts cs sortedPlaces =
     map (\<lambda>p. p\<lparr> chargerCount :=
                    Some (length (filter (\<lambda>c. placeId c = Some (place_id p)) cs)) \<rparr>)
       sortedPlaces"

definition distanceMap :: "place list \<Rightarrow> distance_result list \<Rightarrow> (string \<rightharpoonup> distance_result)" where
  "distanceMap placeResults distanceResults =
     fold (\<lambda>(p, d) m. m(place_id p \<mapsto> d)) (zip placeResults distanceResults) Map.empty"

text \<open>
  \<open>distanceValue === null || distanceValue <= searchRadiusMeters\<close>: a place whose entry
  is absent has the value \<open>undefined\<close> and fails both tests.
\<close>

definition placesWithinRadius ::
  "real \<Rightarrow> (string \<rightharpoonup> distance_result) \<Rightarrow> place list \<Rightarrow> place list" where
  "placesWithinRadius searchRadiusMeters dm placeResults =
     filter (\<lambda>p. case dm (place_id p) of
                   None \<Rightarrow> False
                 | Some r \<Rightarrow> (case distanceValue r of
                               None \<Rightarrow> True
                             | Some v \<Rightarrow> v \<le> searchRadiusMeters))
       placeResults"

text \<open>
  The state after \<open>loadDataFromLocation\<close>, from the results of the three fetches.
\<close>

definition loadDataFromLocation ::
  "filters \<Rightarrow> place list \<Rightarrow> distance_result list \<Rightarrow> raw_charger list list \<Rightarrow>
   view_state \<Rightarrow> view_state" where
  "loadDataFromLocation f placeResults distanceResults chargerResults s =
     (if placeResults = [] then s\<lparr> error := Some NoLocationsFound \<rparr>
      else
        (let searchRadiusMeters = num_or (f_searchRadius f) 2 * 1609.34;
             dm = distanceMap placeResults distanceResults;
             inRadius = placesWithinRadius searchRadiusMeters dm placeResults
         in if inRadius = []
            then s\<lparr> distances := dm, error := Some NoLocationsWithinRadius \<rparr>
            else
              (let sortedPlaces = sortPlaces dm inRadius;
                   cs = allChargers f placeResults chargerResults
               in s\<lparr> places := withChargerCounts cs sortedPlaces,
                     chargers := cs,
                     filteredChargers := cs,
                     distances := dm,
                     error := None \<rparr>)))"

section \<open>The filter pass\<close>

definition applyFilters :: "filters \<Rightarrow> place list \<Rightarrow> charger list \<Rightarrow> charger list" where
  "applyFilters f ps cs =
     (let filtered = cs;
          filtered = (if f_operational f
                      then filter (\<lambda>c. isOperational c = Some True) filtered else filtered);
          filtered = (if f_access f \<noteq> [] \<and> f_access f \<noteq> ''all''
                      then filter (\<lambda>c. category c = f_access f) filtered else filtered);
          filtered = (if f_cost f \<noteq> [] \<and> f_cost f \<noteq> ''all''
                      then filter (\<lambda>c. if f_cost f = ''free'' then isFree c else isFree c = False)
                             filtered
                      else filtered);
          filtered = (if f_speed f \<noteq> [] \<and> f_speed f \<noteq> ''all''
                      then filter (\<lambda>c. powerTier c = f_speed f) filtered else filtered);
          filtered = (if length (f_connectors f) > 0
                      then filter (\<lambda>c. let types = map connector_type (connectors c)
                                        in list_ex (\<lambda>sel. sel \<in> set types) (f_connectors f))
                             filtered
                      else filtered);
          filtered = (if f_walkingTime f \<noteq> 0
                      then (let walkingDistanceKm = walkingTimeToDistanceKm (f_walkingTime f)
                            in filter (\<lambda>c. case find (\<lambda>p. Some (place_id p) = placeId c) ps of
                                             None \<Rightarrow> False
                                           | Some pl \<Rightarrow>
                                               js_le (calculateDistance
                                                        \<lparr> lat = lat (geometry_location pl),
                                                          lng = lng (geometry_location pl) \<rparr>
                                                        (location c))
                                                 walkingDistanceKm)
                                 filtered)
                      else filtered)
      in filtered)"

text \<open>The comparator of the featured charger: \<open>isOperational ? 1 : 0\<close>, then power.\<close>

definition opRank :: "charger \<Rightarrow> real" where
  "opRank c = (if isOperational c = Some True then 1 else 0)"

definition featuredCompare :: "charger \<Rightarrow> charger \<Rightarrow> jsnum" where
  "featuredCompare a b =
     (let opA = opRank a; opB = opRank b
      in if opB \<noteq> opA then Fin (opB - opA)
         else Fin (num_or (maxPower b) 0 - num_or (maxPower a) 0))"

definition featuredOf :: "charger list \<Rightarrow> charger option" where
  "featuredOf placeChargers =
     (case js_sort featuredCompare placeChargers of [] \<Rightarrow> None | c # rest \<Rightarrow> Some c)"

definition updatedPlaces :: "charger list \<Rightarrow> place list \<Rightarrow> place list" where
  "updatedPlaces filtered ps =
     map (\<lambda>p. let placeChargers = filter (\<lambda>c. placeId c = Some (place_id p)) filtered
              in p\<lparr> chargerCount := Some (length placeChargers),
                    featuredCharger := featuredOf placeChargers \<rparr>)
       ps"

fun join_comma :: "string list \<Rightarrow> string" where
  "join_comma [] = []"
| "join_comma [x] = x"
| "join_comma (x # y # zs) = x @ '','' @ join_comma (y # zs)"

definition placesSignature :: "place list \<Rightarrow> string" where
  "placesSignature ps =
     join_comma (map (\<lambda>p. place_id p @ '':'' @
                           show_nat (case chargerCount p of None \<Rightarrow> 0 | Some k \<Rightarrow> k)) ps)"

text \<open>
  One run of the filter effect. With no places or no chargers it returns early, and
  clears the filtered chargers only when there are no chargers.
\<close>

definition filterEffect :: "filters \<Rightarrow> view_state \<Rightarrow> view_state" where
  "filterEffect f s =
     (if places s = [] \<or> chargers s = []
      then (if chargers s = [] then s\<lparr> filteredChargers := [] \<rparr> else s)
      else
        (let filtered = applyFilters f (places s) (chargers s);
             sortedPlaces = sortPlaces (distances s) (updatedPlaces filtered (places s));
             newSignature = placesSignature sortedPlaces
         in if previousPlacesSignature s \<noteq> newSignature
            then s\<lparr> filteredChargers := filtered,
                    places := sortedPlaces,
                    previousPlacesSignature := newSignature \<rparr>
            else s\<lparr> filteredChargers := filtered \<rparr>))"

section \<open>Initial criteria and sample records\<close>

text \<open>The criteria the map view starts with.\<close>

definition defaultFilters :: filters where
  "defaultFilters =
     \<lparr> f_operational = False, f_access = ''all'', f_cost = ''all'', f_speed = ''all'',
       f_connectors = [], f_walkingTime = 5, f_searchRadius = 10 \<rparr>"

text \<open>Records for the examples: a raw charger that has only an id and coordinates, a
  parsed charger with a given status and power at the default map centre, and a place.\<close>

definition sampleRaw :: "nat \<Rightarrow> jsval \<Rightarrow> jsval \<Rightarrow> raw_charger" where
  "sampleRaw i la lo =
     \<lparr> ID = i, AddressInfo = Some \<lparr> Latitude = la, Longitude = lo \<rparr>, Connections = None,
       UsageCost = None, UsageType = None, StatusType = None \<rparr>"

definition sampleCharger :: "nat \<Rightarrow> bool option \<Rightarrow> real \<Rightarrow> string option \<Rightarrow> charger" where
  "sampleCharger i op p pid =
     (parseChargerData (sampleRaw i (Num 37.7749) (Num (- 122.4194))))
       \<lparr> maxPower := p, isOperational := op, placeId := pid \<rparr>"

definition samplePlace :: "string \<Rightarrow> real \<Rightarrow> real \<Rightarrow> place" where
  "samplePlace i la lo =
     \<lparr> place_id = i, geometry_location = \<lparr> lat = Num la, lng = Num lo \<rparr>,
       chargerCount = None, featuredCharger = None \<rparr>"


section \<open>Facts about strings\<close>

lemma includes_iff: "str_includes s sub \<longleftrightarrow> (\<exists>ps ss. s = ps @ sub @ ss)"
proof (induction s)
  case Nil
  then show ?case by auto
next
  case (Cons c cs)
  have "(\<exists>ps ss. c # cs = ps @ sub @ ss) \<longleftrightarrow> sublist sub (c # cs)"
    by (simp add: sublist_def)
  also have "\<dots> \<longleftrightarrow> prefix sub (c # cs) \<or> sublist sub cs"
    by (rule sublist_Cons_right)
  also have "\<dots> \<longleftrightarrow> prefix sub (c # cs) \<or> (\<exists>ps ss. cs = ps @ sub @ ss)"
    by (simp add: sublist_def)
  finally show ?case using Cons.IH by simp
qed

lemma includes_toLowerCase_iff:
  "str_includes (toLowerCase s) w \<longleftrightarrow> (\<exists>ps mid ss. s = ps @ mid @ ss \<and> toLowerCase mid = w)"
proof
  assume "str_includes (toLowerCase s) w"
  then obtain ps ss where eq: "map toLowerChar s = ps @ w @ ss"
    by (auto simp: includes_iff toLowerCase_def)
  define n m where "n = length ps" and "m = length w"
  have split: "s = take n s @ take m (drop n s) @ drop m (drop n s)"
    by (metis append_take_drop_id)
  have "map toLowerChar (take m (drop n s)) = take m (drop n (map toLowerChar s))"
    by (simp add: take_map drop_map)
  also have "\<dots> = w"
    by (simp add: eq n_def m_def)
  finally have "toLowerCase (take m (drop n s)) = w"
    by (simp add: toLowerCase_def)
  with split have "\<exists>ps mid ss. s = ps @ mid @ ss \<and> toLowerCase mid = w"
    by blast
  then show "\<exists>ps mid ss. s = ps @ mid @ ss \<and> toLowerCase mid = w"
    by blast
next
  assume "\<exists>ps mid ss. s = ps @ mid @ ss \<and> toLowerCase mid = w"
  then obtain ps mid ss where "s = ps @ mid @ ss" "toLowerCase mid = w"
    by blast
  then have "toLowerCase s = toLowerCase ps @ w @ toLowerCase ss"
    by (simp add: toLowerCase_def)
  then show "str_includes (toLowerCase s) w"
    unfolding includes_iff by blast
qed

section \<open>The charger normalizer\<close>

subsection \<open>Free or paid, and the cost label\<close>

text \<open>
  C1. With the cost text of the raw record (empty when it is \<open>null\<close>) and its
  pay-at-location flag: \<open>isFree\<close> holds exactly when the cost text is non-empty, has a
  substring that is \<open>free\<close> up to letter case, and the flag is not \<open>true\<close>. The cost
  label is the cost text when that is non-empty, otherwise \<open>Free\<close> when \<open>isFree\<close>,
  otherwise \<open>Pay At Location\<close> when the flag is \<open>true\<close>, otherwise \<open>Paid\<close>.
\<close>

theorem parseChargerData_free_and_cost:
  "(let costText = (case UsageCost ch of None \<Rightarrow> [] | Some s \<Rightarrow> s);
        payFlag = (case UsageType ch of None \<Rightarrow> None | Some u \<Rightarrow> IsPayAtLocation u)
    in isFree (parseChargerData ch) =
         (costText \<noteq> [] \<and>
          (\<exists>ps mid ss. costText = ps @ mid @ ss \<and> toLowerCase mid = ''free'') \<and>
          payFlag \<noteq> Some True) \<and>
       cost (parseChargerData ch) =
         (if costText \<noteq> [] then costText
          else if isFree (parseChargerData ch) then ''Free''
          else if payFlag = Some True then ''Pay At Location''
          else ''Paid''))"
  by (auto simp: parseChargerData_def Let_def str_or_def isPayAtLocation_def
        includes_toLowerCase_iff split: option.splits)

text \<open>The regression case: an empty cost text with the flag set is not free.\<close>

theorem parseChargerData_free_and_cost_witness:
  "isFree (parseChargerData
      \<lparr> ID = 1, AddressInfo = None, Connections = None, UsageCost = Some [],
        UsageType = Some \<lparr> UsageType_Title = None, IsMembershipRequired = None,
                           IsAccessKeyRequired = None, IsPayAtLocation = Some True \<rparr>,
        StatusType = None \<rparr>) = False \<and>
   cost (parseChargerData
      \<lparr> ID = 1, AddressInfo = None, Connections = None, UsageCost = Some [],
        UsageType = Some \<lparr> UsageType_Title = None, IsMembershipRequired = None,
                           IsAccessKeyRequired = None, IsPayAtLocation = Some True \<rparr>,
        StatusType = None \<rparr>) = ''Pay At Location''"
  using parseChargerData_free_and_cost
    [of "\<lparr> ID = 1, AddressInfo = None, Connections = None, UsageCost = Some [],
        UsageType = Some \<lparr> UsageType_Title = None, IsMembershipRequired = None,
                           IsAccessKeyRequired = None, IsPayAtLocation = Some True \<rparr>,
        StatusType = None \<rparr>"]
  by (simp add: Let_def)

lemma free_examples:
  "isFree (parseChargerData
      \<lparr> ID = 1, AddressInfo = None, Connections = None, UsageCost = Some ''Free charging'',
        UsageType = Some \<lparr> UsageType_Title = None, IsMembershipRequired = None,
                           IsAccessKeyRequired = None, IsPayAtLocation = Some False \<rparr>,
        StatusType = None \<rparr>)"
  "cost (parseChargerData
      \<lparr> ID = 1, AddressInfo = None, Connections = None, UsageCost = Some ''Free charging'',
        UsageType = Some \<lparr> UsageType_Title = None, IsMembershipRequired = None,
                           IsAccessKeyRequired = None, IsPayAtLocation = Some False \<rparr>,
        StatusType = None \<rparr>) = ''Free charging''"
  "\<not> isFree (parseChargerData
      \<lparr> ID = 1, AddressInfo = None, Connections = None, UsageCost = None,
        UsageType = Some \<lparr> UsageType_Title = None, IsMembershipRequired = None,
                           IsAccessKeyRequired = None, IsPayAtLocation = Some True \<rparr>,
        StatusType = None \<rparr>)"
  "\<not> isFree (parseChargerData
      \<lparr> ID = 1, AddressInfo = None, Connections = None, UsageCost = Some ''$0.35/kWh'',
        UsageType = Some \<lparr> UsageType_Title = None, IsMembershipRequired = None,
                           IsAccessKeyRequired = None, IsPayAtLocation = Some False \<rparr>,
        StatusType = None \<rparr>)"
  by (simp_all add: parseChargerData_def Let_def str_or_def isPayAtLocation_def
        toLowerCase_def toLowerChar_def)

subsection \<open>Operational status\<close>

text \<open>
  C2. The operational status follows the priority chain: \<open>false\<close> when the status
  title has, up to letter case, one of the words unavailable, planned, removed,
  decommissioned, or when the operational flag is \<open>false\<close>; otherwise \<open>true\<close> when the
  flag is \<open>true\<close>; otherwise \<open>true\<close> when some connection has a status whose
  operational flag is \<open>true\<close>; otherwise \<open>null\<close>, here \<open>None\<close>, which is not
  \<open>Some False\<close>.
\<close>

theorem parseChargerData_operational:
  "isOperational (parseChargerData ch) =
    (let title = (case StatusType ch of None \<Rightarrow> []
                  | Some st \<Rightarrow> (case StatusType_Title st of None \<Rightarrow> [] | Some t \<Rightarrow> t));
         flag = (case StatusType ch of None \<Rightarrow> None | Some st \<Rightarrow> IsOperational st);
         has = (\<lambda>w. \<exists>ps mid ss. title = ps @ mid @ ss \<and> toLowerCase mid = w)
     in if has ''unavailable'' \<or> has ''planned'' \<or> has ''removed'' \<or> has ''decommissioned''
           \<or> flag = Some False then Some False
        else if flag = Some True then Some True
        else if (\<exists>c \<in> set (connections_of ch). \<exists>st. Connection_StatusType c = Some st
                    \<and> IsOperational st = Some True) then Some True
        else None)"
proof -
  have t: "str_or (case StatusType ch of None \<Rightarrow> None | Some st \<Rightarrow> StatusType_Title st) [] =
        (case StatusType ch of None \<Rightarrow> []
                  | Some st \<Rightarrow> (case StatusType_Title st of None \<Rightarrow> [] | Some t \<Rightarrow> t))"
    by (simp add: str_or_def split: option.splits)
  have c: "list_ex (\<lambda>c. case Connection_StatusType c of None \<Rightarrow> False
                          | Some st \<Rightarrow> IsOperational st = Some True) cs =
        (\<exists>c \<in> set cs. \<exists>st. Connection_StatusType c = Some st
                    \<and> IsOperational st = Some True)" for cs :: "connection list"
    by (auto simp: list_ex_iff split: option.splits)
  show ?thesis
    unfolding Let_def includes_toLowerCase_iff[symmetric]
    by (auto simp: parseChargerData_def Let_def t c)
qed

text \<open>
  The flag \<open>true\<close> with no title gives \<open>true\<close>; a record with no signal at all gives
  the unknown status.
\<close>

theorem parseChargerData_operational_witness:
  "isOperational (parseChargerData
      \<lparr> ID = 1, AddressInfo = None, Connections = None, UsageCost = None, UsageType = None,
        StatusType = Some \<lparr> StatusType_Title = None, IsOperational = Some True \<rparr> \<rparr>) = Some True
   \<and> isOperational (parseChargerData
      \<lparr> ID = 1, AddressInfo = None, Connections = None, UsageCost = None, UsageType = None,
        StatusType = None \<rparr>) = None"
  using parseChargerData_operational
    [of "\<lparr> ID = 1, AddressInfo = None, Connections = None, UsageCost = None, UsageType = None,
        StatusType = Some \<lparr> StatusType_Title = None, IsOperational = Some True \<rparr> \<rparr>"]
    parseChargerData_operational
    [of "\<lparr> ID = 1, AddressInfo = None, Connections = None, UsageCost = None, UsageType = None,
        StatusType = None \<rparr>"]
  by (simp add: Let_def connections_of_def toLowerCase_def)

lemma operational_examples:
  "isOperational (parseChargerData
      \<lparr> ID = 1, AddressInfo = None, Connections = None, UsageCost = None, UsageType = None,
        StatusType = Some \<lparr> StatusType_Title = Some ''Unavailable'', IsOperational = None \<rparr> \<rparr>)
   = Some False"
  "isOperational (parseChargerData
      \<lparr> ID = 1, AddressInfo = None,
        Connections = Some [\<lparr> PowerKW = None, ConnectionType_Title = None,
          Connection_StatusType = Some \<lparr> StatusType_Title = None, IsOperational = Some True \<rparr> \<rparr>],
        UsageCost = None, UsageType = None, StatusType = None \<rparr>)
   = Some True"
  by (simp_all add: parseChargerData_def Let_def str_or_def connections_of_def
        toLowerCase_def toLowerChar_def)

subsection \<open>Power tier\<close>

lemma positive_powers:
  "set (filter (\<lambda>p. p > 0) (map (\<lambda>c. case f c of None \<Rightarrow> 0 | Some p \<Rightarrow> p) xs)) =
     {p \<in> set (List.map_filter f xs). p > (0::real)}"
  by (induction xs) (auto simp: map_filter_simps split: option.splits)

lemma set_powerValues:
  "set (powerValues ch) = {p \<in> set (List.map_filter PowerKW (connections_of ch)). p > 0}"
  unfolding powerValues_def by (rule positive_powers)

lemma derivePowerTier_cases:
  "derivePowerTier m =
     (if m \<le> 3.7 then ''level1'' else if m \<le> 22 then ''level2'' else ''dc_fast'')"
  by (simp add: derivePowerTier_def)

lemma maxPower_parse:
  "maxPower (parseChargerData ch) =
     (if powerValues ch = [] then 0 else Max (set (powerValues ch)))"
  by (simp add: parseChargerData_def Let_def)

lemma Max_positive_part:
  fixes R :: "real set"
  assumes fin: "finite R" and ne: "{p \<in> R. p > 0} \<noteq> {}"
  shows "Max {p \<in> R. p > 0} = Max R" and "0 < Max R"
proof -
  let ?P = "{p \<in> R. p > 0}"
  have finP: "finite ?P" using fin by simp
  have Rne: "R \<noteq> {}" using ne by blast
  have mP: "Max ?P \<in> ?P" using finP ne by (rule Max_in)
  have mR: "Max R \<in> R" using fin Rne by (rule Max_in)
  have le: "Max ?P \<le> Max R"
    using mP fin by (intro Max_ge) simp_all
  moreover from mP have pos: "0 < Max ?P" by simp
  ultimately have "Max R \<in> ?P" using mR by simp
  then have "Max R \<le> Max ?P" using finP by (intro Max_ge)
  with le show "Max ?P = Max R" by simp
  from pos le show "0 < Max R" by simp
qed

lemma maxPower_eq:
  "maxPower (parseChargerData ch) =
     max 0 (if List.map_filter PowerKW (connections_of ch) = [] then 0
            else Max (set (List.map_filter PowerKW (connections_of ch))))"
proof -
  let ?R = "set (List.map_filter PowerKW (connections_of ch))"
  let ?P = "{p \<in> ?R. p > 0}"
  show ?thesis
  proof (cases "?P = {}")
    case True
    then have "set (powerValues ch) = {}"
      using set_powerValues [of ch] by simp
    then have "powerValues ch = []"
      by (simp only: set_empty)
    moreover have "Max ?R \<le> 0" if "List.map_filter PowerKW (connections_of ch) \<noteq> []"
    proof -
      have "Max ?R \<in> ?R" using that by (intro Max_in) simp_all
      with True show ?thesis by force
    qed
    ultimately show ?thesis
      by (simp add: maxPower_parse)
  next
    case False
    then have "set (powerValues ch) \<noteq> {}"
      using set_powerValues [of ch] by simp
    then have ne: "powerValues ch \<noteq> []"
      by (simp only: set_empty not_False_eq_True)
    from False have rne: "List.map_filter PowerKW (connections_of ch) \<noteq> []"
      by auto
    have "Max ?P = Max ?R" and "0 < Max ?R"
      using Max_positive_part [of ?R] False by simp_all
    then show ?thesis
      using ne rne by (simp add: maxPower_parse set_powerValues)
  qed
qed

text \<open>
  C3. Let \<open>m\<close> be the greatest power value that the connections report, 0 when none
  reports one. The power tier is \<open>level1\<close> when \<open>m \<le> 3.7\<close>, \<open>level2\<close> when
  \<open>3.7 < m \<le> 22\<close> and \<open>dc_fast\<close> when \<open>22 < m\<close>; it is never \<open>unknown\<close>. The
  \<open>maxPower\<close> of the charger is \<open>m\<close>, or 0 when \<open>m\<close> is negative. At the boundaries:
  3.7 is level1, 3.701 is level2, 22 is level2, 22.001 is dc_fast, and zero and
  negative power are level1.
\<close>

theorem parseChargerData_powerTier:
  "(let reported = List.map_filter PowerKW (connections_of ch);
        m = (if reported = [] then 0 else Max (set reported))
    in powerTier (parseChargerData ch) =
         (if m \<le> 3.7 then ''level1'' else if m \<le> 22 then ''level2'' else ''dc_fast'') \<and>
       powerTier (parseChargerData ch) \<noteq> ''unknown'' \<and>
       maxPower (parseChargerData ch) = max 0 m) \<and>
   derivePowerTier 3.7 = ''level1'' \<and> derivePowerTier 3.701 = ''level2'' \<and>
   derivePowerTier 22 = ''level2'' \<and> derivePowerTier 22.001 = ''dc_fast'' \<and>
   derivePowerTier 0 = ''level1'' \<and> derivePowerTier (-1) = ''level1''"
proof -
  have tier: "powerTier (parseChargerData ch) = derivePowerTier (maxPower (parseChargerData ch))"
    by (simp add: parseChargerData_def Let_def)
  have ex: "derivePowerTier 3.7 = ''level1'' \<and> derivePowerTier 3.701 = ''level2'' \<and>
   derivePowerTier 22 = ''level2'' \<and> derivePowerTier 22.001 = ''dc_fast'' \<and>
   derivePowerTier 0 = ''level1'' \<and> derivePowerTier (-1) = ''level1''"
    by (simp add: derivePowerTier_def)
  show ?thesis
    unfolding Let_def tier maxPower_eq derivePowerTier_cases
    using ex by (auto simp: max_def)
qed

text \<open>A charger with connections of 7.4 kW and 50 kW, and one that reports no power.\<close>

theorem parseChargerData_powerTier_witness:
  "powerTier (parseChargerData
      \<lparr> ID = 1, AddressInfo = None,
        Connections = Some
          [\<lparr> PowerKW = Some 7.4, ConnectionType_Title = None, Connection_StatusType = None \<rparr>,
           \<lparr> PowerKW = Some 50, ConnectionType_Title = None, Connection_StatusType = None \<rparr>,
           \<lparr> PowerKW = None, ConnectionType_Title = None, Connection_StatusType = None \<rparr>],
        UsageCost = None, UsageType = None, StatusType = None \<rparr>) = ''dc_fast''"
  using parseChargerData_powerTier
    [of "\<lparr> ID = 1, AddressInfo = None,
        Connections = Some
          [\<lparr> PowerKW = Some 7.4, ConnectionType_Title = None, Connection_StatusType = None \<rparr>,
           \<lparr> PowerKW = Some 50, ConnectionType_Title = None, Connection_StatusType = None \<rparr>,
           \<lparr> PowerKW = None, ConnectionType_Title = None, Connection_StatusType = None \<rparr>],
        UsageCost = None, UsageType = None, StatusType = None \<rparr>"]
  by (simp add: Let_def connections_of_def map_filter_simps)

section \<open>Walking time\<close>

lemma minutes_roundtrip:
  "(walkingTimeToDistanceKm x * 0.621371 / 3.1) * 60 = x * 0.99999720514"
  by (simp add: walkingTimeToDistanceKm_def Let_def)

lemma show_int_examples: "show_int 1 = ''1''" "show_int 2 = ''2''" "show_int 5 = ''5''"
  by (simp_all add: show_int_def show_nat.simps digit_char_def)

lemma round_nearest:
  fixes x :: real
  shows "of_int (round x) - 1 / 2 \<le> x \<and> x < of_int (round x) + 1 / 2"
  using of_int_round_le [of x] of_int_round_gt [of x] by simp

lemma js_rem_nonneg:
  fixes x :: real
  assumes "0 \<le> x"
  shows "js_rem x 60 = x - 60 * of_int \<lfloor>x / 60\<rfloor>"
proof -
  have "\<not> x / 60 < 0" using assms by simp
  then show ?thesis by (simp add: js_rem_def)
qed

lemma walkingLabel_roundtrip:
  fixes m :: nat
  assumes "1 \<le> m" and "m \<le> 30"
  shows "walkingLabel (walkingTimeToDistanceKm (real m)) =
           (if m = 1 then LessThanOneMin else Minutes (int m))"
proof -
  let ?x = "real m * 0.99999720514"
  have lab: "walkingLabel (walkingTimeToDistanceKm (real m)) =
      (if ?x < 1 then LessThanOneMin
       else if ?x < 60 then Minutes (round ?x)
       else (let hours = \<lfloor>?x / 60\<rfloor>; remainingMinutes = round (js_rem ?x 60)
             in if remainingMinutes = 0 then Hours hours
                else HoursMinutes hours remainingMinutes))"
    unfolding walkingLabel_def Let_def minutes_roundtrip ..
  show ?thesis
  proof (cases "m = 1")
    case True
    then show ?thesis unfolding lab by simp
  next
    case False
    with assms have m2: "2 \<le> real m" and m30: "real m \<le> 30" by simp_all
    have ge1: "\<not> ?x < 1" using m2 by simp
    have lt60: "?x < 60" using m30 by simp
    have "round ?x = int m"
    proof (rule round_unique)
      show "?x - 1 / 2 < of_int (int m)" using m2 by simp
      show "of_int (int m) \<le> ?x + 1 / 2" using m30 by simp
    qed
    with ge1 lt60 False show ?thesis unfolding lab by simp
  qed
qed

text \<open>
  C7. For a whole number of minutes \<open>m\<close> from 1 to 30, the walking-time label of
  \<open>walkingTimeToDistanceKm m\<close> stands for times within one minute of \<open>m\<close>: the
  label is \<open>m min\<close> for \<open>m \<ge> 2\<close>, and \<open>< 1 min\<close> for \<open>m = 1\<close>, because the two
  conversion constants multiply to 0.99999720514, just below 1.
\<close>

theorem walking_roundtrip:
  fixes m :: nat
  shows "1 \<le> m \<Longrightarrow> m \<le> 30 \<Longrightarrow>
    calculateWalkingTime (walkingTimeToDistanceKm (real m)) =
      render (walkingLabel (walkingTimeToDistanceKm (real m))) \<and>
    walkingLabel (walkingTimeToDistanceKm (real m)) =
      (if m = 1 then LessThanOneMin else Minutes (int m)) \<and>
    label_minutes (walkingLabel (walkingTimeToDistanceKm (real m))) \<noteq> {} \<and>
    (\<forall>t \<in> label_minutes (walkingLabel (walkingTimeToDistanceKm (real m))). \<bar>t - real m\<bar> \<le> 1)"
proof -
  assume a: "1 \<le> m" "m \<le> 30"
  have ne: "{t::real. 0 \<le> t \<and> t < 1} \<noteq> {}"
  proof -
    have "(0::real) \<in> {t. 0 \<le> t \<and> t < 1}" by simp
    then show ?thesis by blast
  qed
  show ?thesis
    unfolding walkingLabel_roundtrip [OF a] calculateWalkingTime_def
    using ne by auto
qed

theorem walking_roundtrip_witness:
  "calculateWalkingTime (walkingTimeToDistanceKm 5) = ''5 min'' \<and>
   calculateWalkingTime (walkingTimeToDistanceKm 1) = ''< 1 min''"
  using walking_roundtrip [of 5] walking_roundtrip [of 1]
  by (simp add: show_int_examples)

text \<open>
  C8, as amended. For a distance that is not negative, with the time in minutes at
  3.1 mph: the label is \<open>< 1 min\<close> below one minute; \<open>N min\<close> below sixty minutes,
  \<open>N\<close> the nearest whole number (a half rounds up); otherwise, with \<open>H\<close> the whole
  hours and \<open>M\<close> the remaining minutes rounded to the nearest whole number, it is
  \<open>H hr M min\<close> when \<open>M\<close> is not 0, and when \<open>M\<close> is 0 it is \<open>1 hr\<close> for one hour and
  \<open>H hrs\<close>, in the plural, for two hours or more.
\<close>

theorem calculateWalkingTime_label:
  "0 \<le> distanceKm \<Longrightarrow>
   (let minutes = (distanceKm * 0.621371 / 3.1) * 60
    in if minutes < 1 then calculateWalkingTime distanceKm = ''< 1 min''
       else if minutes < 60
       then (\<exists>N. of_int N - 1 / 2 \<le> minutes \<and> minutes < of_int N + 1 / 2 \<and>
                 calculateWalkingTime distanceKm = show_int N @ '' min'')
       else (\<exists>H M. of_int H * 60 \<le> minutes \<and> minutes < (of_int H + 1) * 60 \<and>
                   of_int M - 1 / 2 \<le> minutes - of_int H * 60 \<and>
                   minutes - of_int H * 60 < of_int M + 1 / 2 \<and>
                   calculateWalkingTime distanceKm =
                     (if M = 0 then show_int H @ (if H = 1 then '' hr'' else '' hrs'')
                      else show_int H @ '' hr '' @ show_int M @ '' min'')))"
proof -
  assume nonneg: "0 \<le> distanceKm"
  define minutes where "minutes = (distanceKm * 0.621371 / 3.1) * 60"
  have lab: "walkingLabel distanceKm =
      (if minutes < 1 then LessThanOneMin
       else if minutes < 60 then Minutes (round minutes)
       else (if round (js_rem minutes 60) = 0 then Hours \<lfloor>minutes / 60\<rfloor>
             else HoursMinutes \<lfloor>minutes / 60\<rfloor> (round (js_rem minutes 60))))"
    unfolding walkingLabel_def Let_def minutes_def ..
  consider (a) "minutes < 1" | (b) "\<not> minutes < 1" "minutes < 60" | (c) "\<not> minutes < 60"
    by linarith
  then have "if minutes < 1 then calculateWalkingTime distanceKm = ''< 1 min''
       else if minutes < 60
       then (\<exists>N. of_int N - 1 / 2 \<le> minutes \<and> minutes < of_int N + 1 / 2 \<and>
                 calculateWalkingTime distanceKm = show_int N @ '' min'')
       else (\<exists>H M. of_int H * 60 \<le> minutes \<and> minutes < (of_int H + 1) * 60 \<and>
                   of_int M - 1 / 2 \<le> minutes - of_int H * 60 \<and>
                   minutes - of_int H * 60 < of_int M + 1 / 2 \<and>
                   calculateWalkingTime distanceKm =
                     (if M = 0 then show_int H @ (if H = 1 then '' hr'' else '' hrs'')
                      else show_int H @ '' hr '' @ show_int M @ '' min''))"
  proof cases
    case a
    then show ?thesis by (simp add: calculateWalkingTime_def lab)
  next
    case b
    have "calculateWalkingTime distanceKm = show_int (round minutes) @ '' min''"
      using b by (simp add: calculateWalkingTime_def lab)
    with round_nearest [of minutes] b show ?thesis by auto
  next
    case c
    define H where "H = \<lfloor>minutes / 60\<rfloor>"
    define M where "M = round (js_rem minutes 60)"
    from c have m60: "60 \<le> minutes" by simp
    then have H1: "1 \<le> H" unfolding H_def by (simp add: le_floor_iff)
    have rem: "js_rem minutes 60 = minutes - of_int H * 60"
      using js_rem_nonneg [of minutes] m60 by (simp add: H_def)
    have "of_int H \<le> minutes / 60"
      unfolding H_def by linarith
    then have lo: "of_int H * 60 \<le> minutes"
      by simp
    have "minutes / 60 < of_int H + 1"
      unfolding H_def by linarith
    then have hi: "minutes < (of_int H + 1) * 60"
      by simp
    have M: "of_int M - 1 / 2 \<le> minutes - of_int H * 60 \<and>
             minutes - of_int H * 60 < of_int M + 1 / 2"
      using round_nearest [of "js_rem minutes 60"] by (simp add: M_def rem)
    have "calculateWalkingTime distanceKm =
            (if M = 0 then show_int H @ (if H = 1 then '' hr'' else '' hrs'')
             else show_int H @ '' hr '' @ show_int M @ '' min'')"
      using c H1 by (auto simp: calculateWalkingTime_def lab H_def [symmetric] M_def [symmetric])
    with lo hi M c have "\<exists>H M. of_int H * 60 \<le> minutes \<and> minutes < (of_int H + 1) * 60 \<and>
                   of_int M - 1 / 2 \<le> minutes - of_int H * 60 \<and>
                   minutes - of_int H * 60 < of_int M + 1 / 2 \<and>
                   calculateWalkingTime distanceKm =
                     (if M = 0 then show_int H @ (if H = 1 then '' hr'' else '' hrs'')
                      else show_int H @ '' hr '' @ show_int M @ '' min'')"
      by blast
    with c show ?thesis by simp
  qed
  then show ?thesis
    unfolding Let_def minutes_def .
qed

theorem calculateWalkingTime_label_witness:
  "calculateWalkingTime 5 = ''1 hr''"
  using calculateWalkingTime_label [of 5]
  by (simp add: calculateWalkingTime_def walkingLabel_def Let_def js_rem_def round_def
        show_int_examples)

text \<open>
  C8 as stated fails at 10 km: the time is 120.27 minutes, two whole hours with the
  remaining minutes rounding to 0, and the label is \<open>2 hrs\<close>, not \<open>2 hr\<close>.
\<close>

theorem calculateWalkingTime_plural_counterexample:
  "(0::real) \<le> 10 \<and> \<not> (10 * 0.621371 / 3.1) * 60 < (60::real) \<and>
   \<lfloor>((10 * 0.621371 / 3.1) * 60) / (60::real)\<rfloor> = 2 \<and>
   round ((10 * 0.621371 / 3.1) * 60 - 2 * (60::real)) = 0 \<and>
   calculateWalkingTime 10 = ''2 hrs'' \<and>
   calculateWalkingTime 10 \<noteq> show_int 2 @ '' hr''"
  by (simp add: calculateWalkingTime_def walkingLabel_def Let_def js_rem_def round_def
        show_int_examples)

section \<open>Sorting with a comparator\<close>

lemma js_insort_insort_key:
  fixes key :: "'a \<Rightarrow> 'k::linorder"
  assumes "\<And>y. y \<in> set ys \<Longrightarrow> positive (cmp x y) = (key y < key x)"
  shows "js_insort cmp x ys = insort_key key x ys"
  using assms by (induction ys) (auto simp: not_le)

lemma js_sort_sort_key:
  fixes key :: "'a \<Rightarrow> 'k::linorder"
  assumes "\<And>x y. x \<in> set xs \<Longrightarrow> y \<in> set xs \<Longrightarrow> positive (cmp x y) = (key y < key x)"
  shows "js_sort cmp xs = sort_key key xs"
  using assms
proof (induction xs)
  case Nil
  then show ?case by (simp add: js_sort_def)
next
  case (Cons x xs)
  have IH: "js_sort cmp xs = sort_key key xs"
    using Cons by simp
  have "js_sort cmp (x # xs) = js_insort cmp x (sort_key key xs)"
    using IH by (simp add: js_sort_def)
  also have "\<dots> = insort_key key x (sort_key key xs)"
    by (rule js_insort_insort_key) (simp add: Cons.prems)
  finally show ?case by simp
qed

lemma find_filter_conv:
  "find P xs = (case filter P xs of [] \<Rightarrow> None | x # rest \<Rightarrow> Some x)"
  by (induction xs) simp_all

lemma first_of_sort_key:
  fixes key :: "'a \<Rightarrow> 'k::linorder"
  shows "(case sort_key key xs of [] \<Rightarrow> None | c # rest \<Rightarrow> Some c) =
           find (\<lambda>c. \<forall>d \<in> set xs. key c \<le> key d) xs"
proof (cases "sort_key key xs")
  case Nil
  then have "xs = []"
    by (metis set_sort set_empty)
  with Nil show ?thesis by simp
next
  case (Cons c rest)
  have srt: "sorted (map key (c # rest))"
    using sorted_sort_key [of key xs] Cons by simp
  have sets: "set (c # rest) = set xs"
    using set_sort [of key xs] Cons by simp
  have cmin: "\<forall>d \<in> set xs. key c \<le> key d"
    using srt sets by auto
  have cin: "c \<in> set xs" using sets by auto
  have eqP: "(\<forall>d \<in> set xs. key y \<le> key d) \<longleftrightarrow> key y = key c" if "y \<in> set xs" for y
    using cmin cin that by (auto intro: antisym)
  have "filter (\<lambda>y. key y = key c) xs = filter (\<lambda>y. key y = key c) (sort_key key xs)"
    by (rule sort_key_stable [symmetric])
  also have "\<dots> = c # filter (\<lambda>y. key y = key c) rest"
    by (simp add: Cons)
  finally have f: "filter (\<lambda>y. key y = key c) xs = c # filter (\<lambda>y. key y = key c) rest" .
  have "filter (\<lambda>c. \<forall>d \<in> set xs. key c \<le> key d) xs = filter (\<lambda>y. key y = key c) xs"
    by (rule filter_cong) (simp_all add: eqP)
  then have "find (\<lambda>c. \<forall>d \<in> set xs. key c \<le> key d) xs = Some c"
    by (simp add: find_filter_conv f)
  with Cons show ?thesis by simp
qed

section \<open>The featured charger\<close>

lemma featuredCompare_not_operational:
  assumes "isOperational a \<noteq> Some True" and "isOperational b \<noteq> Some True"
  shows "positive (featuredCompare a b) = (- maxPower b < - maxPower a)"
  using assms by (simp add: featuredCompare_def opRank_def num_or_def Let_def)

text \<open>
  C10. In the comparator of the featured charger a status of \<open>null\<close> has the same
  rank as \<open>false\<close>, 0, below the rank 1 of \<open>true\<close>: replacing one by the other in
  either argument does not change the comparator's value. Hence, among chargers none
  of which is explicitly operational, the featured charger is the first one in the
  original order whose \<open>maxPower\<close> is greatest.
\<close>

theorem featured_unknown_as_false:
  "opRank (c\<lparr>isOperational := None\<rparr>) = 0 \<and>
   opRank (c\<lparr>isOperational := Some False\<rparr>) = 0 \<and>
   opRank (c\<lparr>isOperational := Some True\<rparr>) = 1 \<and>
   featuredCompare (a\<lparr>isOperational := None\<rparr>) b =
     featuredCompare (a\<lparr>isOperational := Some False\<rparr>) b \<and>
   featuredCompare a (b\<lparr>isOperational := None\<rparr>) =
     featuredCompare a (b\<lparr>isOperational := Some False\<rparr>) \<and>
   ((\<forall>c \<in> set cs. isOperational c \<noteq> Some True) \<longrightarrow>
      featuredOf cs = find (\<lambda>c. \<forall>d \<in> set cs. maxPower d \<le> maxPower c) cs)"
proof -
  have "featuredOf cs = find (\<lambda>c. \<forall>d \<in> set cs. maxPower d \<le> maxPower c) cs"
    if no: "\<forall>c \<in> set cs. isOperational c \<noteq> Some True"
  proof -
    have "js_sort featuredCompare cs = sort_key (\<lambda>c. - maxPower c) cs"
      by (rule js_sort_sort_key) (simp add: featuredCompare_not_operational no)
    then have "featuredOf cs =
        find (\<lambda>c. \<forall>d \<in> set cs. - maxPower c \<le> - maxPower d) cs"
      unfolding featuredOf_def by (simp only: first_of_sort_key)
    then show ?thesis by simp
  qed
  then show ?thesis
    by (simp add: opRank_def featuredCompare_def)
qed

text \<open>
  Three chargers of one place: unknown at 7 kW, not operational at 50 kW, unknown at
  50 kW. The second is featured: power decides, then the original order.
\<close>

theorem featured_unknown_as_false_witness:
  "featuredOf [sampleCharger 1 None 7 (Some ''p''), sampleCharger 2 (Some False) 50 (Some ''p''), sampleCharger 3 None 50 (Some ''p'')]
     = Some (sampleCharger 2 (Some False) 50 (Some ''p''))"
  using featured_unknown_as_false
    [of undefined undefined undefined
        "[sampleCharger 1 None 7 (Some ''p''), sampleCharger 2 (Some False) 50 (Some ''p''), sampleCharger 3 None 50 (Some ''p'')]"]
  by (simp add: sampleCharger_def)

section \<open>The order of places\<close>

text \<open>
  What the sort does: it is the stable sort by the key that is \<open>(0, v)\<close> for a place
  whose distance \<open>v\<close> is a number other than 0, and \<open>(1, 0)\<close> for every other place,
  pairs compared lexicographically. Places with a non-zero distance come in ascending
  order, the others after them, and places of equal key keep their order.
\<close>

lemma distOrInfinity_cases:
  "(\<exists>v. v \<noteq> 0 \<and> distOrInfinity ds p = Fin v) \<or> distOrInfinity ds p = PInf"
  by (simp add: distOrInfinity_def split: option.splits)

lemma sortPlaces_sort_key:
  "sortPlaces ds ps =
     sort_key (\<lambda>p. case distOrInfinity ds p of Fin v \<Rightarrow> (0::nat, v) | _ \<Rightarrow> (1, 0)) ps"
  unfolding sortPlaces_def
proof (rule js_sort_sort_key)
  fix a b
  show "positive (js_minus (distOrInfinity ds a) (distOrInfinity ds b)) =
        ((case distOrInfinity ds b of Fin v \<Rightarrow> (0::nat, v) | _ \<Rightarrow> (1, 0))
          < (case distOrInfinity ds a of Fin v \<Rightarrow> (0::nat, v) | _ \<Rightarrow> (1, 0)))"
    using distOrInfinity_cases [of ds a] distOrInfinity_cases [of ds b]
    by (auto simp: less_prod_def)
qed

lemma sortPlaces_sorted:
  "sorted (map (\<lambda>p. case distOrInfinity ds p of Fin v \<Rightarrow> (0::nat, v) | _ \<Rightarrow> (1, 0))
     (sortPlaces ds ps))"
  unfolding sortPlaces_sort_key by (rule sorted_sort_key)

lemma sortPlaces_stable:
  "filter (\<lambda>p. (case distOrInfinity ds p of Fin v \<Rightarrow> (0::nat, v) | _ \<Rightarrow> (1, 0)) = k)
     (sortPlaces ds ps) =
   filter (\<lambda>p. (case distOrInfinity ds p of Fin v \<Rightarrow> (0::nat, v) | _ \<Rightarrow> (1, 0)) = k) ps"
  unfolding sortPlaces_sort_key by (rule sort_key_stable)

text \<open>
  C6. The comparator reads a place's distance as \<open>distanceValue || Infinity\<close>, so a
  distance of 0 metres, a number, is replaced by infinity as if it were absent. A
  place at distance 0 is therefore sorted after a place at 500 metres, although the
  order is meant to be ascending in the distance, closest first.
\<close>

theorem sortPlaces_zero_distance_last:
  "sortPlaces [''a'' \<mapsto> \<lparr> distanceValue = Some 0 \<rparr>, ''b'' \<mapsto> \<lparr> distanceValue = Some 500 \<rparr>]
     [samplePlace ''a'' 37.7749 (- 122.4194), samplePlace ''b'' 37.78 (- 122.42)]
   = [samplePlace ''b'' 37.78 (- 122.42), samplePlace ''a'' 37.7749 (- 122.4194)]"
  by (simp add: sortPlaces_def js_sort_def distOrInfinity_def samplePlace_def)

section \<open>The filter pass on chargers\<close>


lemma coord_eta: "\<lparr> lat = lat g, lng = lng g \<rparr> = (g :: coord)"
  by (cases g) simp




lemma calculateDistance_same:
  "calculateDistance \<lparr> lat = Num a, lng = Num b \<rparr> \<lparr> lat = Num a, lng = Num b \<rparr> = Some 0"
  by (simp add: calculateDistance_def haversine_def Let_def toRad_def js_sqrt_def atan2_def)




section \<open>Correlation of chargers with places\<close>

lemma js_le_iff: "js_le v d \<longleftrightarrow> (\<exists>x. v = Some x \<and> x \<le> d)"
  by (cases v) simp_all

lemma correlatePlace_alt:
  "correlatePlace d pl raws =
     map (\<lambda>c. c\<lparr> placeId := Some (place_id pl),
                  distanceFromPlace := Some (calculateDistance (geometry_location pl) (location c)) \<rparr>)
       (filter (\<lambda>c. \<exists>x. calculateDistance (geometry_location pl) (location c) = Some x \<and> x \<le> d)
          (map parseChargerData raws))"
  by (simp add: correlatePlace_def Let_def coord_eta js_le_iff)

lemma correlatePlace_placeId:
  "c \<in> set (correlatePlace d pl raws) \<Longrightarrow> placeId c = Some (place_id pl)"
  by (auto simp: correlatePlace_alt)

lemma concat_blocks_placeId:
  assumes "c \<in> set (concat (map (\<lambda>(pl, raws). correlatePlace d pl raws) (zip prs crs)))"
  shows "\<exists>pl \<in> set prs. placeId c = Some (place_id pl)"
proof -
  from assms obtain pl raws where "(pl, raws) \<in> set (zip prs crs)"
    and "c \<in> set (correlatePlace d pl raws)"
    by auto
  then show ?thesis
    by (auto dest: set_zip_leftD correlatePlace_placeId)
qed

lemma filter_block:
  assumes "distinct (map place_id prs)" and "length crs = length prs" and "i < length prs"
  shows "filter (\<lambda>c. placeId c = Some (place_id (prs ! i)))
           (concat (map (\<lambda>(pl, raws). correlatePlace d pl raws) (zip prs crs)))
         = correlatePlace d (prs ! i) (crs ! i)"
  using assms
proof (induction prs arbitrary: crs i)
  case Nil
  then show ?case by simp
next
  case (Cons p prs)
  from Cons.prems obtain r crs' where crs: "crs = r # crs'" and len: "length crs' = length prs"
    by (cases crs) auto
  from Cons.prems have dist: "distinct (map place_id prs)"
    and notin: "place_id p \<notin> place_id ` set prs"
    by auto
  let ?rest = "concat (map (\<lambda>(pl, raws). correlatePlace d pl raws) (zip prs crs'))"
  show ?case
  proof (cases i)
    case 0
    have "filter (\<lambda>c. placeId c = Some (place_id p)) (correlatePlace d p r) = correlatePlace d p r"
      by (rule filter_True) (simp add: correlatePlace_placeId)
    moreover have "filter (\<lambda>c. placeId c = Some (place_id p)) ?rest = []"
    proof (rule filter_False, rule ballI)
      fix c assume "c \<in> set ?rest"
      then obtain pl where "pl \<in> set prs" "placeId c = Some (place_id pl)"
        using concat_blocks_placeId by blast
      moreover from \<open>pl \<in> set prs\<close> notin have "place_id pl \<noteq> place_id p"
        by (metis image_eqI)
      ultimately show "\<not> placeId c = Some (place_id p)" by simp
    qed
    ultimately show ?thesis using 0 crs by simp
  next
    case (Suc j)
    with Cons.prems have j: "j < length prs" by simp
    then have "place_id (prs ! j) \<noteq> place_id p"
      using notin by (metis image_eqI nth_mem)
    then have "filter (\<lambda>c. placeId c = Some (place_id (prs ! j))) (correlatePlace d p r) = []"
      by (intro filter_False ballI) (auto dest: correlatePlace_placeId)
    moreover have "filter (\<lambda>c. placeId c = Some (place_id (prs ! j))) ?rest
        = correlatePlace d (prs ! j) (crs' ! j)"
      using Cons.IH [OF dist len j] .
    ultimately show ?thesis using Suc crs by simp
  qed
qed

text \<open>
  C5. With \<open>d\<close> the distance for the walking time (5 minutes when the criterion is 0):
  the chargers after correlation are, place by place and in order, the parsed chargers
  of that place's list whose distance from the place is a number at most \<open>d\<close>, each
  with \<open>placeId\<close> set to the place's id and \<open>distanceFromPlace\<close> to that distance; all
  others are dropped. Each place's \<open>chargerCount\<close> becomes the number of chargers that
  carry its id, and when the place ids are distinct that is the number of chargers kept
  from the place's own list.
\<close>

theorem correlation_walking_distance:
  "(let d = walkingTimeToDistanceKm (if f_walkingTime f = 0 then 5 else f_walkingTime f);
        dist = (\<lambda>pl c. calculateDistance (geometry_location pl) (location c));
        stamp = (\<lambda>pl c. c\<lparr> placeId := Some (place_id pl), distanceFromPlace := Some (dist pl c) \<rparr>);
        kept = (\<lambda>pl raws. filter (\<lambda>c. \<exists>x. dist pl c = Some x \<and> x \<le> d) (map parseChargerData raws))
    in allChargers f prs crs =
         concat (map (\<lambda>(pl, raws). map (stamp pl) (kept pl raws)) (zip prs crs)) \<and>
       map chargerCount (withChargerCounts cs ps) =
         map (\<lambda>p. Some (length (filter (\<lambda>c. placeId c = Some (place_id p)) cs))) ps \<and>
       map place_id (withChargerCounts cs ps) = map place_id ps \<and>
       (distinct (map place_id prs) \<and> length crs = length prs \<longrightarrow>
          (\<forall>i < length prs.
             length (filter (\<lambda>c. placeId c = Some (place_id (prs ! i))) (allChargers f prs crs))
               = length (kept (prs ! i) (crs ! i)))))"
proof -
  define d where "d = walkingTimeToDistanceKm (if f_walkingTime f = 0 then 5 else f_walkingTime f)"
  have all: "allChargers f prs crs =
      concat (map (\<lambda>(pl, raws). correlatePlace d pl raws) (zip prs crs))"
    by (simp add: allChargers_def Let_def num_or_def d_def)
  have counts: "map chargerCount (withChargerCounts cs ps) =
         map (\<lambda>p. Some (length (filter (\<lambda>c. placeId c = Some (place_id p)) cs))) ps"
    by (simp add: withChargerCounts_def)
  have ids: "map place_id (withChargerCounts cs ps) = map place_id ps"
    by (simp add: withChargerCounts_def)
  have block: "length (filter (\<lambda>c. placeId c = Some (place_id (prs ! i))) (allChargers f prs crs))
      = length (filter (\<lambda>c. \<exists>x. calculateDistance (geometry_location (prs ! i)) (location c) = Some x
                            \<and> x \<le> d) (map parseChargerData (crs ! i)))"
    if "distinct (map place_id prs)" "length crs = length prs" "i < length prs" for i
    unfolding all filter_block [OF that] by (simp add: correlatePlace_alt)
  show ?thesis
    unfolding Let_def d_def [symmetric]
    using all counts ids block by (simp add: correlatePlace_alt)
qed

lemma calculateDistance_antipodal:
  "calculateDistance \<lparr> lat = Num 0, lng = Num 0 \<rparr> \<lparr> lat = Num 0, lng = Num 180 \<rparr>
     = Some (6371 * pi)"
  by (simp add: calculateDistance_def haversine_def Let_def toRad_def js_sqrt_def atan2_def)


lemma sampleRaw_location:
  "location (parseChargerData (sampleRaw i la lo)) = \<lparr> lat = la, lng = lo \<rparr>"
  "charger_id (parseChargerData (sampleRaw i la lo)) = i"
  by (simp_all add: sampleRaw_def parseChargerData_def Let_def)

lemma samplePlace_fields:
  "place_id (samplePlace i a b) = i"
  "geometry_location (samplePlace i a b) = \<lparr> lat = Num a, lng = Num b \<rparr>"
  by (simp_all add: samplePlace_def)

lemma far_away: "\<not> 6371 * pi \<le> walkingTimeToDistanceKm 5"
proof -
  have "walkingTimeToDistanceKm 5 < 1"
    by (simp add: walkingTimeToDistanceKm_def Let_def)
  moreover have "1 < 6371 * pi"
    using pi_ge_two by simp
  ultimately show ?thesis by simp
qed

text \<open>
  A place on the equator at longitude 0 with one charger at the same point and one at
  longitude 180: the first is kept at distance 0, the second is dropped.
\<close>

theorem correlation_walking_distance_witness:
  "map charger_id (allChargers defaultFilters [samplePlace ''p'' 0 0]
      [[sampleRaw 7 (Num 0) (Num 0), sampleRaw 8 (Num 0) (Num 180)]]) = [7] \<and>
   map placeId (allChargers defaultFilters [samplePlace ''p'' 0 0]
      [[sampleRaw 7 (Num 0) (Num 0), sampleRaw 8 (Num 0) (Num 180)]]) = [Some ''p''] \<and>
   map distanceFromPlace (allChargers defaultFilters [samplePlace ''p'' 0 0]
      [[sampleRaw 7 (Num 0) (Num 0), sampleRaw 8 (Num 0) (Num 180)]]) = [Some (Some 0)] \<and>
   map chargerCount (withChargerCounts
      (allChargers defaultFilters [samplePlace ''p'' 0 0]
         [[sampleRaw 7 (Num 0) (Num 0), sampleRaw 8 (Num 0) (Num 180)]])
      [samplePlace ''p'' 0 0]) = [Some 1]"
proof -
  let ?prs = "[samplePlace ''p'' 0 0]"
  let ?crs = "[[sampleRaw 7 (Num 0) (Num 0), sampleRaw 8 (Num 0) (Num 180)]]"
  let ?all = "allChargers defaultFilters ?prs ?crs"
  note inst = correlation_walking_distance [of defaultFilters ?prs ?crs ?all ?prs]
  have near: "0 \<le> walkingTimeToDistanceKm 5"
    by (simp add: walkingTimeToDistanceKm_def Let_def)
  have val: "?all =
      [(parseChargerData (sampleRaw 7 (Num 0) (Num 0)))
         \<lparr> placeId := Some ''p'', distanceFromPlace := Some (Some 0) \<rparr>]"
    by (simp add: allChargers_def correlatePlace_def Let_def num_or_def defaultFilters_def
          samplePlace_fields sampleRaw_location calculateDistance_same
          calculateDistance_antipodal far_away near)
  show ?thesis
    using inst
    by (simp add: val withChargerCounts_def samplePlace_fields sampleRaw_location)
qed

section \<open>Records with missing coordinates\<close>













section \<open>States of the map view\<close>

text \<open>
  The two transitions keep this property of the state: when there are chargers, there
  are places. It holds at the start, where both lists are empty.
\<close>

lemma length_sortPlaces: "length (sortPlaces ds ps) = length ps"
  by (simp add: sortPlaces_sort_key)

lemma loadDataFromLocation_success:
  assumes "placeResults \<noteq> []"
    and "placesWithinRadius (num_or (f_searchRadius f) 2 * 1609.34)
           (distanceMap placeResults distanceResults) placeResults \<noteq> []"
  shows "chargers (loadDataFromLocation f placeResults distanceResults chargerResults s) =
           allChargers f placeResults chargerResults"
    and "filteredChargers (loadDataFromLocation f placeResults distanceResults chargerResults s) =
           allChargers f placeResults chargerResults"
    and "places (loadDataFromLocation f placeResults distanceResults chargerResults s) =
           withChargerCounts (allChargers f placeResults chargerResults)
             (sortPlaces (distanceMap placeResults distanceResults)
                (placesWithinRadius (num_or (f_searchRadius f) 2 * 1609.34)
                   (distanceMap placeResults distanceResults) placeResults))"
  using assms by (simp_all add: loadDataFromLocation_def Let_def)

lemma loadDataFromLocation_keeps_places:
  assumes "chargers s \<noteq> [] \<longrightarrow> places s \<noteq> []"
  shows "chargers (loadDataFromLocation f prs drs crs s) \<noteq> [] \<longrightarrow>
         places (loadDataFromLocation f prs drs crs s) \<noteq> []"
proof -
  have "withChargerCounts cs ps \<noteq> []" if "ps \<noteq> []" for cs ps
    using that by (simp add: withChargerCounts_def)
  moreover have "sortPlaces ds ps \<noteq> []" if "ps \<noteq> []" for ds ps
    using that length_sortPlaces [of ds ps] by (metis length_0_conv)
  ultimately show ?thesis
    using assms by (simp add: loadDataFromLocation_def Let_def)
qed

lemma filterEffect_keeps_places:
  assumes "chargers s \<noteq> [] \<longrightarrow> places s \<noteq> []"
  shows "chargers (filterEffect f s) \<noteq> [] \<longrightarrow> places (filterEffect f s) \<noteq> []"
proof -
  have "sortPlaces ds (updatedPlaces cs ps) \<noteq> []" if "ps \<noteq> []" for ds cs ps
  proof -
    have "length (sortPlaces ds (updatedPlaces cs ps)) = length ps"
      by (simp add: length_sortPlaces updatedPlaces_def)
    with that show ?thesis by (metis length_0_conv)
  qed
  then show ?thesis
    using assms by (simp add: filterEffect_def Let_def)
qed

end
